theory Spec2Isabelle
  imports Main
begin

section \<open>Data model\<close>

text \<open>
  The main process of the water reminder, \<^verbatim>\<open>src/app.ts\<close>. The file holds the program
  twice, without and with calls of the logger; the logic of the two is the same and
  the log is not modelled.

  The persisted settings record of \<^verbatim>\<open>src/app.ts\<close> (\<^verbatim>\<open>interface Settings\<close>).
  The TypeScript type of \<^verbatim>\<open>intervalMinutes\<close> and \<^verbatim>\<open>lastSent\<close> is \<^verbatim>\<open>number\<close>;
  the values the program stores there are whole numbers (minutes chosen in the form,
  epoch milliseconds returned by \<^verbatim>\<open>Date.now()\<close>), so both are modelled as \<open>int\<close>,
  with no bound and no sign restriction: the schema of the store only asks for
  \<^verbatim>\<open>type: 'number'\<close>.
\<close>

record Settings =
  intervalMinutes :: int
  lastSent :: int
  openAtLogin :: bool

text \<open>The defaults of the schema handed to the store.\<close>

definition defaults :: Settings where
  "defaults = \<lparr>intervalMinutes = 15, lastSent = 0, openAtLogin = False\<rparr>"

text \<open>
  \<^verbatim>\<open>Partial<Settings>\<close>, the argument of the save-settings handler: every field may be
  \<^verbatim>\<open>undefined\<close> (\<open>None\<close>).
\<close>

record PartialSettings =
  p_intervalMinutes :: "int option"
  p_lastSent :: "int option"
  p_openAtLogin :: "bool option"

text \<open>
  The two notifications the main process builds: the water reminder of
  \<^verbatim>\<open>showWaterNotification\<close> (title "Time to Drink Water!") and the confirmation of
  the save-settings handler (title "Settings Saved").
\<close>

datatype notification = WaterReminder | SettingsSaved

text \<open>The scheduler object, identified by its cron pattern.\<close>

datatype Cron = Cron string

text \<open>
  What the handlers read and write. \<open>store\<close> is the content of the settings store;
  \<open>clock\<close> is the wall clock as the sequence of values that successive calls of
  \<^verbatim>\<open>Date.now()\<close> return and \<open>nowCalls\<close> counts the calls made so far;
  \<open>shown\<close> lists the notifications displayed, oldest first; \<open>loginItem\<close> is the
  last value given to \<^verbatim>\<open>app.setLoginItemSettings\<close>; \<open>scheduler\<close> is the
  module-level variable of that name.
\<close>

record world =
  store :: Settings
  clock :: "nat \<Rightarrow> int"
  nowCalls :: nat
  shown :: "notification list"
  loginItem :: "bool option"
  scheduler :: "Cron option"

text \<open>The result every handler returns.\<close>

record response =
  success :: bool

section \<open>Operations\<close>

text \<open>\<^verbatim>\<open>Date.now()\<close>: the next reading of the clock.\<close>

definition Date_now :: "world \<Rightarrow> int \<times> world" where
  "Date_now w = (clock w (nowCalls w), w\<lparr>nowCalls := Suc (nowCalls w)\<rparr>)"

text \<open>\<^verbatim>\<open>notification.show()\<close>.\<close>

definition show_notification :: "notification \<Rightarrow> world \<Rightarrow> world" where
  "show_notification n w = w\<lparr>shown := shown w @ [n]\<rparr>"

text \<open>\<^verbatim>\<open>store.set('lastSent', v)\<close> and its two siblings.\<close>

definition set_lastSent :: "int \<Rightarrow> world \<Rightarrow> world" where
  "set_lastSent v w = w\<lparr>store := (store w)\<lparr>lastSent := v\<rparr>\<rparr>"

definition set_intervalMinutes :: "int \<Rightarrow> world \<Rightarrow> world" where
  "set_intervalMinutes v w = w\<lparr>store := (store w)\<lparr>intervalMinutes := v\<rparr>\<rparr>"

definition set_openAtLogin :: "bool \<Rightarrow> world \<Rightarrow> world" where
  "set_openAtLogin v w = w\<lparr>store := (store w)\<lparr>openAtLogin := v\<rparr>\<rparr>"

text \<open>
  \<^verbatim>\<open>showWaterNotification\<close>: build and show the reminder, then stamp
  \<^verbatim>\<open>lastSent\<close> with a fresh reading of the clock.
\<close>

definition showWaterNotification :: "world \<Rightarrow> world" where
  "showWaterNotification w =
     (let w1 = show_notification WaterReminder w;
          (t, w2) = Date_now w1
      in set_lastSent t w2)"

text \<open>
  \<^verbatim>\<open>checkAndNotify\<close>, the body of the cron job. Both fields are read from the
  store at once; a zero \<^verbatim>\<open>lastSent\<close> returns before the clock is read.
\<close>

definition checkAndNotify :: "world \<Rightarrow> world" where
  "checkAndNotify w =
     (let ls = lastSent (store w);
          im = intervalMinutes (store w)
      in if ls = 0 then w
         else
           let (now, w1) = Date_now w;
               timeSinceLastSent = now - ls;
               intervalMs = im * 60 * 1000
           in if timeSinceLastSent \<ge> intervalMs then showWaterNotification w1 else w1)"

text \<open>
  \<^verbatim>\<open>initScheduler\<close>: create the cron job that runs \<^verbatim>\<open>checkAndNotify\<close> every
  minute, then stamp \<^verbatim>\<open>lastSent\<close>.
\<close>

definition initScheduler :: "world \<Rightarrow> world" where
  "initScheduler w =
     (let w1 = w\<lparr>scheduler := Some (Cron ''* * * * *'')\<rparr>;
          (t, w2) = Date_now w1
      in set_lastSent t w2)"

text \<open>The handler of \<^verbatim>\<open>save-settings\<close>.\<close>

definition save_settings :: "PartialSettings \<Rightarrow> world \<Rightarrow> response \<times> world" where
  "save_settings newSettings w =
     (let w1 = (case p_intervalMinutes newSettings of
                  None \<Rightarrow> w
                | Some m \<Rightarrow> set_intervalMinutes m w);
          w2 = (case p_openAtLogin newSettings of
                  None \<Rightarrow> w1
                | Some b \<Rightarrow> (set_openAtLogin b w1)\<lparr>loginItem := Some b\<rparr>);
          (t, w3) = Date_now w2;
          w4 = set_lastSent t w3;
          w5 = show_notification SettingsSaved w4
      in (\<lparr>success = True\<rparr>, w5))"

text \<open>The handler of \<^verbatim>\<open>test-notification\<close>.\<close>

definition test_notification :: "world \<Rightarrow> response \<times> world" where
  "test_notification w = (\<lparr>success = True\<rparr>, showWaterNotification w)"

text \<open>
  The events the main process reacts to, and a run of the process over a list of them.
  The handlers run one after the other on one thread.
\<close>

datatype event = Tick | TestNotification | SaveSettings PartialSettings | InitScheduler

fun handle :: "event \<Rightarrow> world \<Rightarrow> world" where
  "handle Tick w = checkAndNotify w"
| "handle TestNotification w = snd (test_notification w)"
| "handle (SaveSettings p) w = snd (save_settings p w)"
| "handle InitScheduler w = initScheduler w"

fun run :: "event list \<Rightarrow> world \<Rightarrow> world" where
  "run [] w = w"
| "run (e # es) w = run es (handle e w)"

section \<open>Example states\<close>

text \<open>
  A clock that reads \<open>t0\<close> at its first call and one minute more at each further call,
  and the process right after start, with the store as loaded from disk.
\<close>

definition clock_from :: "int \<Rightarrow> nat \<Rightarrow> int" where
  "clock_from t0 n = t0 + 60000 * int n"

definition fresh :: "Settings \<Rightarrow> (nat \<Rightarrow> int) \<Rightarrow> world" where
  "fresh s c = \<lparr>store = s, clock = c, nowCalls = 0, shown = [], loginItem = None,
     scheduler = None\<rparr>"

text \<open>A store that was last stamped at 1000000 ms, with the default interval.\<close>

definition stamped :: Settings where
  "stamped = \<lparr>intervalMinutes = 15, lastSent = 1000000, openAtLogin = False\<rparr>"

text \<open>A store on the sentinel, with an interval no form would produce.\<close>

definition unstamped :: Settings where
  "unstamped = \<lparr>intervalMinutes = - 3, lastSent = 0, openAtLogin = True\<rparr>"

text \<open>Requests to the save-settings handler.\<close>

definition empty_request :: PartialSettings where
  "empty_request = \<lparr>p_intervalMinutes = None, p_lastSent = None, p_openAtLogin = None\<rparr>"

definition interval_request :: "int \<Rightarrow> PartialSettings" where
  "interval_request m =
     \<lparr>p_intervalMinutes = Some m, p_lastSent = None, p_openAtLogin = None\<rparr>"

definition login_request :: "bool \<Rightarrow> PartialSettings" where
  "login_request b =
     \<lparr>p_intervalMinutes = None, p_lastSent = None, p_openAtLogin = Some b\<rparr>"

section \<open>Properties\<close>

lemmas prim_defs = Date_now_def show_notification_def set_lastSent_def
  set_intervalMinutes_def set_openAtLogin_def

lemmas example_defs = clock_from_def fresh_def stamped_def unstamped_def
  empty_request_def interval_request_def login_request_def

subsection \<open>The two outcomes of a tick\<close>

lemma checkAndNotify_not_due:
  assumes "clock w (nowCalls w) - lastSent (store w) < intervalMinutes (store w) * 60000"
  shows "checkAndNotify w =
           (if lastSent (store w) = 0 then w else w\<lparr>nowCalls := Suc (nowCalls w)\<rparr>)"
  using assms by (simp add: checkAndNotify_def Date_now_def)

lemma checkAndNotify_due:
  assumes "lastSent (store w) \<noteq> 0"
    and "intervalMinutes (store w) * 60000 \<le> clock w (nowCalls w) - lastSent (store w)"
  shows "checkAndNotify w = showWaterNotification (w\<lparr>nowCalls := Suc (nowCalls w)\<rparr>)"
  using assms by (simp add: checkAndNotify_def Date_now_def)

lemma shown_showWaterNotification:
  "shown (showWaterNotification w) = shown w @ [WaterReminder]"
  by (simp add: showWaterNotification_def prim_defs)

text \<open>
  C2. Whatever \<^verbatim>\<open>intervalMinutes\<close> is and whatever the clock says, a tick that finds
  \<^verbatim>\<open>lastSent\<close> equal to 0 does nothing at all: no notification is shown, the
  settings record is as it was, and not even the clock is read.
\<close>

theorem tick_suppressed_on_sentinel:
  "lastSent (store w) = 0 \<Longrightarrow> checkAndNotify w = w"
  by (simp add: checkAndNotify_def)

theorem tick_suppressed_on_sentinel_witness:
  "lastSent (store (fresh unstamped (clock_from 5000000))) = 0
   \<and> checkAndNotify (fresh unstamped (clock_from 5000000))
       = fresh unstamped (clock_from 5000000)"
  using tick_suppressed_on_sentinel [of "fresh unstamped (clock_from 5000000)"]
  by (simp add: fresh_def unstamped_def)

text \<open>
  C1. With \<^verbatim>\<open>lastSent = T > 0\<close> and \<^verbatim>\<open>intervalMinutes = M > 0\<close>, a tick that reads
  the clock at \<open>T + M * 60000 - 1\<close> shows nothing, and a tick that reads it at
  \<open>T + M * 60000\<close> shows the reminder: the comparison is inclusive at the boundary.
\<close>

theorem tick_threshold:
  assumes "lastSent (store w) = T" and "0 < T"
    and "intervalMinutes (store w) = M" and "0 < M"
  shows "(clock w (nowCalls w) = T + M * 60000 - 1 \<longrightarrow>
            shown (checkAndNotify w) = shown w)
       \<and> (clock w (nowCalls w) = T + M * 60000 \<longrightarrow>
            shown (checkAndNotify w) = shown w @ [WaterReminder])"
proof (intro conjI impI)
  assume "clock w (nowCalls w) = T + M * 60000 - 1"
  with assms have "checkAndNotify w = w\<lparr>nowCalls := Suc (nowCalls w)\<rparr>"
    by (simp add: checkAndNotify_not_due)
  then show "shown (checkAndNotify w) = shown w" by simp
next
  assume "clock w (nowCalls w) = T + M * 60000"
  with assms have "checkAndNotify w = showWaterNotification (w\<lparr>nowCalls := Suc (nowCalls w)\<rparr>)"
    by (simp add: checkAndNotify_due)
  then show "shown (checkAndNotify w) = shown w @ [WaterReminder]"
    by (simp add: shown_showWaterNotification)
qed

theorem tick_threshold_witness:
  "lastSent stamped = 1000000 \<and> intervalMinutes stamped = 15
   \<and> clock_from 1899999 0 = 1000000 + 15 * 60000 - 1
   \<and> shown (checkAndNotify (fresh stamped (clock_from 1899999))) = []
   \<and> clock_from 1900000 0 = 1000000 + 15 * 60000
   \<and> shown (checkAndNotify (fresh stamped (clock_from 1900000))) = [WaterReminder]"
  using tick_threshold [of "fresh stamped (clock_from 1899999)" 1000000 15]
    tick_threshold [of "fresh stamped (clock_from 1900000)" 1000000 15]
  by (simp add: fresh_def stamped_def clock_from_def)

text \<open>
  C8. With \<^verbatim>\<open>lastSent = T > 0\<close>, a tick whose clock reading \<open>now\<close> has
  \<open>now - T < intervalMinutes * 60000\<close> shows no notification and leaves the whole
  settings record (\<^verbatim>\<open>lastSent\<close>, \<^verbatim>\<open>intervalMinutes\<close>, \<^verbatim>\<open>openAtLogin\<close>) as it was.
\<close>

theorem tick_not_due_changes_nothing:
  assumes "lastSent (store w) = T" and "0 < T"
    and "clock w (nowCalls w) - T < intervalMinutes (store w) * 60000"
  shows "shown (checkAndNotify w) = shown w
       \<and> lastSent (store (checkAndNotify w)) = lastSent (store w)
       \<and> intervalMinutes (store (checkAndNotify w)) = intervalMinutes (store w)
       \<and> openAtLogin (store (checkAndNotify w)) = openAtLogin (store w)
       \<and> store (checkAndNotify w) = store w"
proof -
  from assms have "checkAndNotify w = w\<lparr>nowCalls := Suc (nowCalls w)\<rparr>"
    by (simp add: checkAndNotify_not_due)
  then show ?thesis by simp
qed

text \<open>The scenario of the specification: 15 minutes, last reminder 10 minutes ago.\<close>

theorem tick_not_due_changes_nothing_witness:
  "lastSent stamped = 1000000 \<and> (0::int) < 1000000
   \<and> clock_from 1600000 0 - 1000000 < intervalMinutes stamped * 60000
   \<and> shown (checkAndNotify (fresh stamped (clock_from 1600000))) = []
   \<and> store (checkAndNotify (fresh stamped (clock_from 1600000))) = stamped"
  using tick_not_due_changes_nothing [of "fresh stamped (clock_from 1600000)" 1000000]
  by (simp add: fresh_def stamped_def clock_from_def)

subsection \<open>The handlers as state updates\<close>

lemma showWaterNotification_world:
  "showWaterNotification w =
     w\<lparr>store := (store w)\<lparr>lastSent := clock w (nowCalls w)\<rparr>,
       nowCalls := Suc (nowCalls w),
       shown := shown w @ [WaterReminder]\<rparr>"
  by (simp add: showWaterNotification_def prim_defs)

lemma initScheduler_world:
  "initScheduler w =
     w\<lparr>store := (store w)\<lparr>lastSent := clock w (nowCalls w)\<rparr>,
       nowCalls := Suc (nowCalls w),
       scheduler := Some (Cron ''* * * * *'')\<rparr>"
  by (simp add: initScheduler_def prim_defs)

lemma save_settings_world:
  "snd (save_settings p w) =
     w\<lparr>store := \<lparr>intervalMinutes = (case p_intervalMinutes p of None \<Rightarrow> intervalMinutes (store w) | Some m \<Rightarrow> m),
                  lastSent = clock w (nowCalls w),
                  openAtLogin = (case p_openAtLogin p of None \<Rightarrow> openAtLogin (store w) | Some b \<Rightarrow> b)\<rparr>,
       nowCalls := Suc (nowCalls w),
       shown := shown w @ [SettingsSaved],
       loginItem := (case p_openAtLogin p of None \<Rightarrow> loginItem w | Some b \<Rightarrow> Some b)\<rparr>"
  by (simp add: save_settings_def prim_defs split: option.splits)

subsection \<open>Runs\<close>

lemma run_append: "run (es @ es') w = run es' (run es w)"
  by (induction es arbitrary: w) simp_all

lemma ticks_not_due:
  assumes "\<forall>i<k. clock w (nowCalls w + i) - lastSent (store w) < intervalMinutes (store w) * 60000"
  shows "store (run (replicate k Tick) w) = store w \<and> shown (run (replicate k Tick) w) = shown w"
  using assms
proof (induction k arbitrary: w)
  case 0
  then show ?case by simp
next
  case (Suc k)
  from Suc.prems have now: "clock w (nowCalls w) - lastSent (store w) < intervalMinutes (store w) * 60000"
    by (metis add.right_neutral zero_less_Suc)
  show ?case
  proof (cases "lastSent (store w) = 0")
    case True
    with now have "checkAndNotify w = w" by (simp add: checkAndNotify_not_due)
    moreover from Suc.prems have "\<forall>i<k. clock w (nowCalls w + i) - lastSent (store w) < intervalMinutes (store w) * 60000"
      by simp
    ultimately show ?thesis using Suc.IH [of w] by simp
  next
    case False
    let ?w = "w\<lparr>nowCalls := Suc (nowCalls w)\<rparr>"
    from False now have step: "checkAndNotify w = ?w" by (simp add: checkAndNotify_not_due)
    have "\<forall>i<k. clock ?w (nowCalls ?w + i) - lastSent (store ?w) < intervalMinutes (store ?w) * 60000"
    proof (intro allI impI)
      fix i assume "i < k"
      then have "Suc i < Suc k" by simp
      with Suc.prems have "clock w (nowCalls w + Suc i) - lastSent (store w) < intervalMinutes (store w) * 60000"
        by blast
      then show "clock ?w (nowCalls ?w + i) - lastSent (store ?w) < intervalMinutes (store ?w) * 60000"
        by simp
    qed
    from Suc.IH [OF this] step show ?thesis by simp
  qed
qed

lemma handle_clock: "clock (handle e w) = clock w"
  by (cases e)
    (simp_all add: checkAndNotify_def test_notification_def showWaterNotification_world
      save_settings_world initScheduler_world Date_now_def Let_def)

lemma handle_lastSent_le:
  assumes "mono (clock w)" and "lastSent (store w) \<le> clock w (nowCalls w)"
  shows "lastSent (store w) \<le> lastSent (store (handle e w))"
proof -
  from assms(1) have "clock w (nowCalls w) \<le> clock w (Suc (nowCalls w))"
    by (simp add: monoD)
  with assms(2) show ?thesis
    by (cases e)
      (simp_all add: checkAndNotify_def test_notification_def showWaterNotification_world
        save_settings_world initScheduler_world Date_now_def Let_def)
qed

lemma handle_not_ahead:
  assumes "mono (clock w)" and "lastSent (store w) \<le> clock w (nowCalls w)"
  shows "lastSent (store (handle e w)) \<le> clock w (nowCalls (handle e w))"
proof -
  from assms(1) have "clock w (nowCalls w) \<le> clock w (Suc (nowCalls w))"
    and "clock w (Suc (nowCalls w)) \<le> clock w (Suc (Suc (nowCalls w)))"
    by (simp_all add: monoD)
  with assms(2) show ?thesis
    by (cases e)
      (simp_all add: checkAndNotify_def test_notification_def showWaterNotification_world
        save_settings_world initScheduler_world Date_now_def Let_def)
qed

lemma run_lastSent_le:
  assumes "mono (clock w)" and "lastSent (store w) \<le> clock w (nowCalls w)"
  shows "lastSent (store w) \<le> lastSent (store (run es w))
       \<and> clock (run es w) = clock w
       \<and> lastSent (store (run es w)) \<le> clock w (nowCalls (run es w))"
  using assms
proof (induction es arbitrary: w)
  case Nil
  then show ?case by simp
next
  case (Cons e es)
  let ?w = "handle e w"
  have c: "clock ?w = clock w" by (rule handle_clock)
  from Cons.prems have le: "lastSent (store w) \<le> lastSent (store ?w)"
    by (rule handle_lastSent_le)
  from Cons.prems have "lastSent (store ?w) \<le> clock w (nowCalls ?w)"
    by (rule handle_not_ahead)
  with c Cons.prems(1) have "mono (clock ?w)" and "lastSent (store ?w) \<le> clock ?w (nowCalls ?w)"
    by simp_all
  from Cons.IH [OF this] c le show ?case by simp
qed

lemma mono_clock_from: "mono (clock_from t0)"
  by (simp add: mono_def clock_from_def)

subsection \<open>The claims on the handlers\<close>

text \<open>
  C4. Every display of the reminder stamps \<^verbatim>\<open>lastSent\<close> with the clock reading
  taken at the display: \<^verbatim>\<open>showWaterNotification\<close> itself, the handler of
  \<^verbatim>\<open>test-notification\<close>, and a tick that shows something. In a tick the stamp is
  the second reading of the clock, the first one having served the due check.
\<close>

theorem show_and_stamp:
  "lastSent (store (showWaterNotification w)) = clock w (nowCalls w)
   \<and> lastSent (store (snd (test_notification w))) = clock w (nowCalls w)
   \<and> (shown (checkAndNotify w) \<noteq> shown w \<longrightarrow>
        lastSent (store (checkAndNotify w)) = clock w (Suc (nowCalls w)))"
  by (simp add: test_notification_def checkAndNotify_def showWaterNotification_world
      Date_now_def Let_def)

theorem show_and_stamp_witness:
  "shown (checkAndNotify (fresh stamped (clock_from 1960000)))
     \<noteq> shown (fresh stamped (clock_from 1960000))
   \<and> lastSent (store (checkAndNotify (fresh stamped (clock_from 1960000)))) = 2020000
   \<and> lastSent (store (showWaterNotification (fresh stamped (clock_from 1960000)))) = 1960000"
  using show_and_stamp [of "fresh stamped (clock_from 1960000)"]
  by (simp add: checkAndNotify_def showWaterNotification_world Date_now_def example_defs)

text \<open>
  C3, as the specification states it, fails: the handler of \<^verbatim>\<open>test-notification\<close>
  calls \<^verbatim>\<open>showWaterNotification\<close>, which stamps \<^verbatim>\<open>lastSent\<close>. Ten minutes after a
  stamp at 1000000 ms the handler moves the stamp to the clock reading 1600000.
\<close>

theorem test_notification_stamps_counterexample:
  "lastSent (store (snd (test_notification (fresh stamped (clock_from 1600000)))))
     \<noteq> lastSent (store (fresh stamped (clock_from 1600000)))"
  by (simp add: test_notification_def showWaterNotification_world example_defs)

text \<open>
  C3, amended. In every state (on the sentinel or not, due or not) the handler of
  \<^verbatim>\<open>test-notification\<close> shows the reminder, reads the clock once and makes no
  comparison with the interval, answers success, and sets \<^verbatim>\<open>lastSent\<close> to that
  reading; the two other fields of the record stay as they were.
\<close>

theorem test_notification_shows_and_stamps:
  "fst (test_notification w) = \<lparr>success = True\<rparr>
   \<and> shown (snd (test_notification w)) = shown w @ [WaterReminder]
   \<and> nowCalls (snd (test_notification w)) = Suc (nowCalls w)
   \<and> lastSent (store (snd (test_notification w))) = clock w (nowCalls w)
   \<and> intervalMinutes (store (snd (test_notification w))) = intervalMinutes (store w)
   \<and> openAtLogin (store (snd (test_notification w))) = openAtLogin (store w)"
  by (simp add: test_notification_def showWaterNotification_world)

text \<open>
  C5. Whatever the request carries (no field at all included) and whatever the state
  was (a window about to fire included), the save-settings handler stamps
  \<^verbatim>\<open>lastSent\<close> with the clock reading it takes. Hence the ticks that follow show
  nothing as long as their clock readings are less than the (possibly new) interval
  after that stamp.
\<close>

theorem save_settings_resets_window:
  "lastSent (store (snd (save_settings p w))) = clock w (nowCalls w)
   \<and> ((\<forall>i<k. clock w (Suc (nowCalls w) + i) - clock w (nowCalls w)
          < intervalMinutes (store (snd (save_settings p w))) * 60000)
        \<longrightarrow> shown (run (replicate k Tick) (snd (save_settings p w)))
              = shown (snd (save_settings p w)))"
proof (intro conjI impI)
  show "lastSent (store (snd (save_settings p w))) = clock w (nowCalls w)"
    by (simp add: save_settings_world)
next
  let ?w = "snd (save_settings p w)"
  assume "\<forall>i<k. clock w (Suc (nowCalls w) + i) - clock w (nowCalls w)
          < intervalMinutes (store ?w) * 60000"
  then have "\<forall>i<k. clock ?w (nowCalls ?w + i) - lastSent (store ?w)
          < intervalMinutes (store ?w) * 60000"
    by (simp add: save_settings_world)
  then show "shown (run (replicate k Tick) ?w) = shown ?w"
    by (simp add: ticks_not_due)
qed

theorem save_settings_resets_window_witness:
  "lastSent (store (snd (save_settings empty_request (fresh stamped (clock_from 1899999)))))
     = 1899999
   \<and> clock_from 1899999 14 - clock_from 1899999 0 < 15 * 60000
   \<and> shown (run (replicate 14 Tick)
        (snd (save_settings empty_request (fresh stamped (clock_from 1899999)))))
     = [SettingsSaved]"
  using save_settings_resets_window
    [of empty_request "fresh stamped (clock_from 1899999)" 14]
  by (simp add: save_settings_world example_defs)

text \<open>
  C6. Whatever the persisted record was (a stamp that is long overdue included),
  \<^verbatim>\<open>initScheduler\<close> stamps \<^verbatim>\<open>lastSent\<close> with the clock reading it takes. Hence
  the ticks that follow show nothing as long as their clock readings are less than one
  interval after the start of the scheduler.
\<close>

theorem initScheduler_resets_window:
  "lastSent (store (initScheduler w)) = clock w (nowCalls w)
   \<and> ((\<forall>i<k. clock w (Suc (nowCalls w) + i) - clock w (nowCalls w)
          < intervalMinutes (store w) * 60000)
        \<longrightarrow> shown (run (replicate k Tick) (initScheduler w)) = shown w)"
proof (intro conjI impI)
  show "lastSent (store (initScheduler w)) = clock w (nowCalls w)"
    by (simp add: initScheduler_world)
next
  let ?w = "initScheduler w"
  assume "\<forall>i<k. clock w (Suc (nowCalls w) + i) - clock w (nowCalls w)
          < intervalMinutes (store w) * 60000"
  then have "\<forall>i<k. clock ?w (nowCalls ?w + i) - lastSent (store ?w)
          < intervalMinutes (store ?w) * 60000"
    by (simp add: initScheduler_world)
  then have "shown (run (replicate k Tick) ?w) = shown ?w"
    by (simp add: ticks_not_due)
  then show "shown (run (replicate k Tick) ?w) = shown w"
    by (simp add: initScheduler_world)
qed

text \<open>A store whose stamp of 1000000 ms is long overdue when the process starts.\<close>

theorem initScheduler_resets_window_witness:
  "intervalMinutes stamped * 60000 \<le> clock_from 90000000 0 - lastSent stamped
   \<and> lastSent (store (initScheduler (fresh stamped (clock_from 90000000)))) = 90000000
   \<and> clock_from 90000000 14 - clock_from 90000000 0 < 15 * 60000
   \<and> shown (run (replicate 14 Tick) (initScheduler (fresh stamped (clock_from 90000000)))) = []"
  using initScheduler_resets_window [of "fresh stamped (clock_from 90000000)" 14]
  by (simp add: example_defs)

text \<open>
  C7, as the specification states it, fails: the save-settings handler has no check on
  the interval. A request carrying \<open>- 5\<close> is answered with success and \<open>- 5\<close> is
  what the store holds afterwards.
\<close>

theorem save_settings_nonpositive_counterexample:
  "fst (save_settings (interval_request (- 5)) (fresh stamped (clock_from 1600000)))
     = \<lparr>success = True\<rparr>
   \<and> intervalMinutes (store (snd (save_settings (interval_request (- 5))
         (fresh stamped (clock_from 1600000))))) = - 5"
  by (simp add: save_settings_world example_defs) (simp add: save_settings_def Let_def split_def)

text \<open>
  C7, amended. The save-settings handler rejects nothing: an interval carried by the
  request, positive or not, is written to the settings record as it is, and the
  handler answers success.
\<close>

theorem save_settings_writes_any_interval:
  assumes "p_intervalMinutes p = Some m"
  shows "fst (save_settings p w) = \<lparr>success = True\<rparr>
       \<and> intervalMinutes (store (snd (save_settings p w))) = m"
  using assms by (simp add: save_settings_world) (simp add: save_settings_def Let_def split_def)

theorem save_settings_writes_any_interval_witness:
  "p_intervalMinutes (interval_request 0) = Some 0
   \<and> fst (save_settings (interval_request 0) (fresh stamped (clock_from 1600000)))
       = \<lparr>success = True\<rparr>
   \<and> intervalMinutes (store (snd (save_settings (interval_request 0)
         (fresh stamped (clock_from 1600000))))) = 0"
  using save_settings_writes_any_interval
    [of "interval_request 0" 0 "fresh stamped (clock_from 1600000)"]
  by (simp add: interval_request_def)

text \<open>
  C10. A field absent from the request keeps its stored value: without
  \<^verbatim>\<open>intervalMinutes\<close> the stored interval is as before, and without
  \<^verbatim>\<open>openAtLogin\<close> the stored flag is as before and the login item of the
  operating system is not touched.
\<close>

theorem save_settings_keeps_absent_fields:
  "(p_intervalMinutes p = None \<longrightarrow>
      intervalMinutes (store (snd (save_settings p w))) = intervalMinutes (store w))
   \<and> (p_openAtLogin p = None \<longrightarrow>
      openAtLogin (store (snd (save_settings p w))) = openAtLogin (store w)
      \<and> loginItem (snd (save_settings p w)) = loginItem w)"
  by (simp add: save_settings_world)

theorem save_settings_keeps_absent_fields_witness:
  "p_intervalMinutes (login_request True) = None
   \<and> intervalMinutes (store (snd (save_settings (login_request True)
        (fresh stamped (clock_from 1600000))))) = 15
   \<and> p_openAtLogin (interval_request 30) = None
   \<and> openAtLogin (store (snd (save_settings (interval_request 30)
        (fresh unstamped (clock_from 1600000))))) = True
   \<and> loginItem (snd (save_settings (interval_request 30)
        (fresh unstamped (clock_from 1600000)))) = None"
  using save_settings_keeps_absent_fields
      [of "login_request True" "fresh stamped (clock_from 1600000)"]
    save_settings_keeps_absent_fields
      [of "interval_request 30" "fresh unstamped (clock_from 1600000)"]
  by (simp add: example_defs)

text \<open>
  C9. Let the clock be non-decreasing from call to call, and let the stored
  \<^verbatim>\<open>lastSent\<close> not be ahead of it (the value was written from an earlier reading, or
  is the default 0 of a store never written, the clock counting from the epoch). Then
  along every sequence of ticks, test notifications, settings saves and scheduler
  starts, \<^verbatim>\<open>lastSent\<close> never decreases: its value after any prefix of the sequence is
  at most its value after any longer prefix.
\<close>

theorem lastSent_monotone:
  assumes "mono (clock w)" and "lastSent (store w) \<le> clock w (nowCalls w)"
  shows "lastSent (store (run es w)) \<le> lastSent (store (run (es @ es') w))"
proof -
  let ?w = "run es w"
  from run_lastSent_le [OF assms, of es]
  have "mono (clock ?w)" and "lastSent (store ?w) \<le> clock ?w (nowCalls ?w)"
    using assms(1) by simp_all
  then have "lastSent (store ?w) \<le> lastSent (store (run es' ?w))"
    using run_lastSent_le by blast
  then show ?thesis by (simp add: run_append)
qed

theorem lastSent_monotone_witness:
  "mono (clock (fresh defaults (clock_from 1000000)))
   \<and> lastSent (store (fresh defaults (clock_from 1000000)))
       \<le> clock (fresh defaults (clock_from 1000000)) (nowCalls (fresh defaults (clock_from 1000000)))
   \<and> lastSent (store (run [InitScheduler, Tick, SaveSettings (interval_request 1)]
         (fresh defaults (clock_from 1000000))))
       \<le> lastSent (store (run ([InitScheduler, Tick, SaveSettings (interval_request 1)]
                                @ [Tick, Tick, TestNotification])
         (fresh defaults (clock_from 1000000))))"
  using lastSent_monotone [of "fresh defaults (clock_from 1000000)"
      "[InitScheduler, Tick, SaveSettings (interval_request 1)]"
      "[Tick, Tick, TestNotification]"]
  by (simp add: mono_clock_from fresh_def defaults_def clock_from_def)

end
